theory Spec2Isabelle
  imports Main
begin

section \<open>Python values used by naabu.py\<close>

text \<open>
  A Python \<open>str\<close> is a sequence of Unicode code points. The captured output of the child
  (\<open>text=True\<close>) and every printed line are such strings, so they are modelled as lists
  of code points; \<open>str\<close> turns an ASCII literal of the source into one.
\<close>

type_synonym pystr = "nat list"

definition str :: "string \<Rightarrow> pystr" where
  "str s = map of_char s"

text \<open>
  \<open>str.isspace\<close> for one code point: the table of CPython's \<open>_PyUnicode_IsWhitespace\<close>.
\<close>

definition py_isspace :: "nat \<Rightarrow> bool" where
  "py_isspace c \<longleftrightarrow>
     (9 \<le> c \<and> c \<le> 13) \<or> (28 \<le> c \<and> c \<le> 32) \<or> c = 133 \<or> c = 160 \<or> c = 5760 \<or>
     (8192 \<le> c \<and> c \<le> 8202) \<or> c = 8232 \<or> c = 8233 \<or> c = 8239 \<or> c = 8287 \<or> c = 12288"

text \<open>\<open>s.strip()\<close>: leading and trailing whitespace removed.\<close>

definition py_strip :: "pystr \<Rightarrow> pystr" where
  "py_strip s = rev (dropWhile py_isspace (rev (dropWhile py_isspace s)))"

text \<open>\<open>sep.join(xs)\<close>.\<close>

fun py_join :: "pystr \<Rightarrow> pystr list \<Rightarrow> pystr" where
  "py_join sep [] = []"
| "py_join sep [x] = x"
| "py_join sep (x # y # ys) = x @ sep @ py_join sep (y # ys)"

text \<open>\<open>str(n)\<close> for an integer, as an f-string renders \<open>{result.returncode}\<close>.\<close>

fun py_digits :: "nat \<Rightarrow> pystr" where
  "py_digits n = (if n < 10 then [48 + n] else py_digits (n div 10) @ [48 + n mod 10])"

declare py_digits.simps [simp del]

definition py_str_int :: "int \<Rightarrow> pystr" where
  "py_str_int i = (if i < 0 then 45 # py_digits (nat (- i)) else py_digits (nat i))"

text \<open>
  The exceptions the program meets, each with its \<open>str(e)\<close>. All five are subclasses of
  \<open>Exception\<close>; \<open>OtherException\<close> stands for any further subclass of \<open>Exception\<close>
  (\<open>PermissionError\<close>, \<open>ValueError\<close>, \<open>UnicodeDecodeError\<close>, ...).
\<close>

datatype py_exception =
    TimeoutExpired pystr
  | FileNotFoundError pystr
  | NameError pystr
  | UnicodeEncodeError pystr
  | OtherException pystr

fun exc_str :: "py_exception \<Rightarrow> pystr" where
  "exc_str (TimeoutExpired m) = m"
| "exc_str (FileNotFoundError m) = m"
| "exc_str (NameError m) = m"
| "exc_str (UnicodeEncodeError m) = m"
| "exc_str (OtherException m) = m"

text \<open>
  \<open>sys.stdout\<close> encodes with UTF-8 and the error handler \<open>strict\<close>, Python's default. The
  text it cannot encode is the text that holds a surrogate code point (\<open>U+D800\<close> to
  \<open>U+DFFF\<close>); \<open>sys.argv\<close> holds such code points (\<open>U+DC80\<close> to \<open>U+DCFF\<close>) for the bytes of
  an argument that are not UTF-8.
\<close>

definition is_surrogate :: "nat \<Rightarrow> bool" where
  "is_surrogate c \<longleftrightarrow> 55296 \<le> c \<and> c \<le> 57343"

definition utf8_encodable :: "pystr \<Rightarrow> bool" where
  "utf8_encodable s \<longleftrightarrow> (\<forall>c\<in>set s. \<not> is_surrogate c)"

text \<open>
  \<open>str(e)\<close> of the \<open>UnicodeEncodeError\<close> for a text that is not encodable: the encoder
  stops at the first surrogate and reports the run of surrogates that starts there, one
  character by its escape, several by their positions.
\<close>

definition hex_digit :: "nat \<Rightarrow> nat" where
  "hex_digit d = (if d < 10 then 48 + d else 87 + d)"

definition hex4 :: "nat \<Rightarrow> pystr" where
  "hex4 c = [hex_digit (c div 4096 mod 16), hex_digit (c div 256 mod 16),
             hex_digit (c div 16 mod 16), hex_digit (c mod 16)]"

definition encode_error_text :: "pystr \<Rightarrow> pystr" where
  "encode_error_text s =
     (let start = length (takeWhile (\<lambda>c. \<not> is_surrogate c) s);
          n = length (takeWhile is_surrogate (drop start s));
          codec = [39] @ str ''utf-8'' @ [39] @ str '' codec can'' @ [39] @ str ''t encode ''
      in if n = 1 then
           codec @ str ''character '' @ [39, 92, 117] @ hex4 (hd (drop start s)) @ [39]
             @ str '' in position '' @ py_digits start @ str '': surrogates not allowed''
         else
           codec @ str ''characters in position '' @ py_digits start @ str ''-''
             @ py_digits (start + n - 1) @ str '': surrogates not allowed'')"

section \<open>The world outside the interpreter\<close>

text \<open>\<open>subprocess.CompletedProcess\<close>: the fields the program reads.\<close>

record completed_process =
  returncode :: int
  stdout :: pystr
  stderr :: pystr

text \<open>
  What a launched command does: it exits by itself after some time with a return code and
  its captured streams (a negative return code \<open>-N\<close> is death by signal \<open>N\<close>), it never
  exits by itself, or launching it raises.
\<close>

datatype child =
    Exits nat completed_process
  | Hangs
  | LaunchFails py_exception

text \<open>
  The inputs the program does not control: the behaviour of each command line, the text of
  the timeout exception, the \<open>venv\<close> directory probes, the clock reading formatted by
  \<open>strftime("%Y%m%d%H%M%S%f")\<close>, and whether \<open>os.makedirs\<close>, \<open>open\<close> and \<open>f.write\<close> raise.
\<close>

record environment =
  os_child :: "pystr list \<Rightarrow> child"
  timeout_text :: pystr
  venv_exists :: bool
  venv_is_dir :: bool
  venv_python_exists :: bool
  now_strftime :: pystr
  makedirs_fault :: "py_exception option"
  open_fault :: "py_exception option"
  write_fault :: "py_exception option"

text \<open>
  What the program changes: the entries printed to \<open>sys.stdout\<close> and \<open>sys.stderr\<close> (one
  per successful \<open>print\<close> call), the calls of \<open>subprocess.run\<close> with their timeouts, the
  files and directories, and the time spent waiting for children.
\<close>

record world =
  out_log :: "pystr list"
  err_log :: "pystr list"
  run_calls :: "(pystr list \<times> nat) list"
  files :: "pystr \<rightharpoonup> pystr"
  dirs :: "pystr set"
  waited :: nat

text \<open>
  A statement either completes with a value in a new world (\<open>Inr\<close>) or raises (\<open>Inl\<close>).
  \<open>and_then\<close> is the sequence of two statements: the second runs when the first
  completes, and an exception of the first ends both.
\<close>

definition and_then ::
  "world \<times> (py_exception + 'a) \<Rightarrow> (world \<Rightarrow> 'a \<Rightarrow> world \<times> (py_exception + 'b))
     \<Rightarrow> world \<times> (py_exception + 'b)" where
  "and_then m f = (case m of (w, Inl e) \<Rightarrow> (w, Inl e) | (w, Inr x) \<Rightarrow> f w x)"

text \<open>
  \<open>try: body except ...: handler\<close>, where the handler has its say on every exception of
  the body (it re-raises those no clause catches).
\<close>

definition try_except ::
  "world \<times> (py_exception + 'a) \<Rightarrow> (world \<Rightarrow> py_exception \<Rightarrow> world \<times> (py_exception + 'a))
     \<Rightarrow> world \<times> (py_exception + 'a)" where
  "try_except body handler = (case body of (w, Inl e) \<Rightarrow> handler w e | (w, Inr x) \<Rightarrow> (w, Inr x))"

text \<open>
  \<open>print(s)\<close> writes to \<open>sys.stdout\<close>: it raises \<open>UnicodeEncodeError\<close>, and writes nothing,
  when the text is not encodable. \<open>print(s, file=sys.stderr)\<close> cannot fail that way:
  \<open>sys.stderr\<close> has the error handler \<open>backslashreplace\<close>.
\<close>

definition print :: "pystr \<Rightarrow> world \<Rightarrow> world \<times> (py_exception + unit)" where
  "print s w =
     (if utf8_encodable s then (w\<lparr>out_log := out_log w @ [s]\<rparr>, Inr ())
      else (w, Inl (UnicodeEncodeError (encode_error_text s))))"

definition print_err :: "pystr \<Rightarrow> world \<Rightarrow> world" where
  "print_err s w = w\<lparr>err_log := err_log w @ [s]\<rparr>"

text \<open>
  \<open>subprocess.run(args, stdout=PIPE, stderr=PIPE, text=True, timeout=t)\<close>: the call returns
  the completed process when the child exits within \<open>t\<close>; otherwise the child is killed
  after \<open>t\<close> and \<open>TimeoutExpired\<close> is raised.
\<close>

definition subprocess_run ::
  "environment \<Rightarrow> pystr list \<Rightarrow> nat \<Rightarrow> world \<Rightarrow> world \<times> (py_exception + completed_process)" where
  "subprocess_run env args timeout w =
     (let w1 = w\<lparr>run_calls := run_calls w @ [(args, timeout)]\<rparr> in
      case os_child env args of
        LaunchFails e \<Rightarrow> (w1, Inl e)
      | Hangs \<Rightarrow> (w1\<lparr>waited := waited w1 + timeout\<rparr>, Inl (TimeoutExpired (timeout_text env)))
      | Exits t cp \<Rightarrow>
          if t \<le> timeout then (w1\<lparr>waited := waited w1 + t\<rparr>, Inr cp)
          else (w1\<lparr>waited := waited w1 + timeout\<rparr>, Inl (TimeoutExpired (timeout_text env))))"

section \<open>naabu.py\<close>

subsection \<open>\<open>run_naabu\<close>\<close>

definition naabu_command :: "pystr \<Rightarrow> pystr list" where
  "naabu_command domain = [str ''/go/bin/naabu'', str ''-host'', domain, str ''-silent'']"

definition msg_sigkill :: pystr where
  "msg_sigkill = str ''[!] Warning: naabu process was killed by SIGKILL (likely due to memory/resource limits)''"

definition msg_timed_out :: pystr where
  "msg_timed_out = str ''[!] naabu wordlist generation timed out''"

definition msg_not_found :: pystr where
  "msg_not_found = str ''[!] Error: naabu command not found. Please ensure naabu is installed and in PATH''"

text \<open>
  The result is \<open>Inr (Some s)\<close> for a returned string, \<open>Inr None\<close> for a returned \<open>None\<close>,
  and \<open>Inl e\<close> for an exception that leaves the function. The first \<open>print\<close> stands
  before the \<open>try\<close>; the \<open>print\<close> calls of the three handlers stand outside it too.
\<close>

definition run_naabu ::
  "environment \<Rightarrow> pystr \<Rightarrow> world \<Rightarrow> world \<times> (py_exception + pystr option)" where
  "run_naabu env domain w =
     (let command = naabu_command domain in
      and_then (print (str ''[*] Executing: '' @ py_join (str '' '') command) w) (\<lambda>w0 _.
        try_except
          (and_then (subprocess_run env command 300 w0) (\<lambda>w1 result.
             if returncode result = - 9 then
               and_then (print msg_sigkill w1) (\<lambda>w2 _.
                 if py_strip (stdout result) \<noteq> [] then (w2, Inr (Some (stdout result)))
                 else (w2, Inr None))
             else if returncode result \<noteq> 0 then
               and_then (print (str ''[!] naabu exited with code '' @ py_str_int (returncode result)) w1) (\<lambda>w2 _.
               and_then (if stderr result \<noteq> []
                         then and_then (print (str ''naabu error output:'') w2) (\<lambda>w3 _.
                                print (stderr result) w3)
                         else (w2, Inr ())) (\<lambda>w4 _.
                 (w4, Inr (if py_strip (stdout result) \<noteq> [] then Some (stdout result) else None))))
             else (w1, Inr (Some (stdout result)))))
          (\<lambda>w1 e. case e of
               TimeoutExpired m \<Rightarrow>
                 and_then (print msg_timed_out w1) (\<lambda>w2 _. (w2, Inr None))
             | FileNotFoundError m \<Rightarrow>
                 and_then (print msg_not_found w1) (\<lambda>w2 _. (w2, Inr None))
             | _ \<Rightarrow>
                 and_then (print (str ''[!] Unexpected error running naabu: '' @ exc_str e) w1)
                   (\<lambda>w2 _. (w2, Inr None)))))"

subsection \<open>\<open>check_naabu_installed\<close>\<close>

definition version_command :: "pystr list" where
  "version_command = [str ''/go/bin/naabu'', str ''-version'']"

text \<open>
  Only \<open>TimeoutExpired\<close> and \<open>FileNotFoundError\<close> are caught here; any other exception
  leaves the function.
\<close>

definition check_naabu_installed :: "environment \<Rightarrow> world \<Rightarrow> world \<times> (py_exception + bool)" where
  "check_naabu_installed env w =
     (case subprocess_run env version_command 5 w of
        (w1, Inr result) \<Rightarrow> (w1, Inr (returncode result = 0))
      | (w1, Inl (TimeoutExpired m)) \<Rightarrow> (w1, Inr False)
      | (w1, Inl (FileNotFoundError m)) \<Rightarrow> (w1, Inr False)
      | (w1, Inl e) \<Rightarrow> (w1, Inl e))"

subsection \<open>\<open>activate_venv\<close>\<close>

definition activate_venv :: "environment \<Rightarrow> world \<Rightarrow> world \<times> (py_exception + unit)" where
  "activate_venv env w =
     (if venv_exists env \<and> venv_is_dir env then
        and_then (print (str ''[*] Virtual environment found'') w) (\<lambda>w1 _.
          if venv_python_exists env then print (str ''[*] Using virtual environment Python'') w1
          else print (str ''[*] Virtual environment found but Python not detected'') w1)
      else (w, Inr ()))"

subsection \<open>\<open>run_naabu_and_save\<close>\<close>

text \<open>\<open>os.makedirs(d, exist_ok=True)\<close>.\<close>

definition os_makedirs :: "environment \<Rightarrow> pystr \<Rightarrow> world \<Rightarrow> world \<times> (py_exception + unit)" where
  "os_makedirs env d w =
     (case makedirs_fault env of
        Some e \<Rightarrow> (w, Inl e)
      | None \<Rightarrow> (w\<lparr>dirs := insert d (dirs w)\<rparr>, Inr ()))"

text \<open>\<open>os.path.join(a, b)\<close> of \<open>posixpath\<close>.\<close>

definition os_path_join :: "pystr \<Rightarrow> pystr \<Rightarrow> pystr" where
  "os_path_join a b =
     (if take 1 b = str ''/'' then b
      else if a = [] \<or> last a = 47 then a @ b
      else a @ str ''/'' @ b)"

text \<open>
  \<open>with open(path, "w") as f: f.write(content)\<close>: opening creates the file, or empties
  an existing one; the write fills it.
\<close>

definition write_file ::
  "environment \<Rightarrow> pystr \<Rightarrow> pystr \<Rightarrow> world \<Rightarrow> world \<times> (py_exception + unit)" where
  "write_file env path content w =
     (case open_fault env of
        Some e \<Rightarrow> (w, Inl e)
      | None \<Rightarrow>
          (let w1 = w\<lparr>files := (files w)(path \<mapsto> [])\<rparr> in
           case write_fault env of
             Some e \<Rightarrow> (w1, Inl e)
           | None \<Rightarrow> (w1\<lparr>files := (files w1)(path \<mapsto> content)\<rparr>, Inr ())))"

definition output_dir :: pystr where
  "output_dir = str ''outputs''"

text \<open>The handler \<open>except Exception as e\<close> of \<open>run_naabu_and_save\<close>.\<close>

definition save_failed :: "world \<Rightarrow> py_exception \<Rightarrow> world \<times> int" where
  "save_failed w e = (print_err (str ''[!] Error running naabu: '' @ exc_str e) w, 1)"

definition run_naabu_and_save :: "environment \<Rightarrow> pystr \<Rightarrow> world \<Rightarrow> world \<times> int" where
  "run_naabu_and_save env subdomain w =
     (case
        and_then (run_naabu env subdomain w) (\<lambda>w1 naabu_output.
          case naabu_output of
            None \<Rightarrow>
              and_then (print (str ''[!] naabu failed or returned no output'') w1) (\<lambda>w2 _.
                (w2, Inr 1))
          | Some output \<Rightarrow>
              and_then (os_makedirs env output_dir w1) (\<lambda>w2 _.
                (let timestamp = take (length (now_strftime env) - 3) (now_strftime env);
                     filename = timestamp @ str ''-naabu.txt'';
                     filepath = os_path_join output_dir filename
                 in and_then (write_file env filepath output w2) (\<lambda>w3 _.
                    and_then (print (str ''[*] naabu results saved as '' @ filepath) w3) (\<lambda>w4 _.
                      (w4, Inr 0))))))
      of
        (w', Inl e) \<Rightarrow> save_failed w' e
      | (w', Inr code) \<Rightarrow> (w', code))"

subsection \<open>\<open>main\<close>\<close>

text \<open>
  How the interpreter ends: \<open>sys.exit(n)\<close>, or an exception nobody caught, for which it
  prints a traceback and ends with status 1.
\<close>

datatype ending = SysExit int | Uncaught py_exception

fun exit_code :: "ending \<Rightarrow> int" where
  "exit_code (SysExit n) = n"
| "exit_code (Uncaught e) = 1"

text \<open>
  The module binds the names \<open>sys\<close>, \<open>os\<close>, \<open>subprocess\<close>, \<open>Path\<close>, \<open>datetime\<close>, \<open>main\<close>,
  \<open>check_naabu_installed\<close>, \<open>activate_venv\<close>, \<open>run_naabu_and_save\<close> and \<open>run_naabu\<close>.
  \<open>module_functions\<close> holds those that can stand where \<open>main\<close> calls a function of the
  target returning the exit code; a name bound neither in the module nor in the builtins
  raises \<open>NameError\<close> when it is evaluated.
\<close>

definition module_functions :: "(string \<times> (environment \<Rightarrow> pystr \<Rightarrow> world \<Rightarrow> world \<times> int)) list" where
  "module_functions = [(''run_naabu_and_save'', run_naabu_and_save)]"

definition name_error :: "string \<Rightarrow> py_exception" where
  "name_error n = NameError (str ''name '' @ [39] @ str n @ [39] @ str '' is not defined'')"

text \<open>
  Every path of \<open>main\<close> ends in \<open>sys.exit(n)\<close>, written \<open>Inr n\<close> below, unless an exception
  ends it before.
\<close>

definition main :: "environment \<Rightarrow> pystr list \<Rightarrow> world \<Rightarrow> world \<times> ending" where
  "main env argv w =
     (case
        (if length argv < 2 then
           and_then (print (str ''[!] Error: Please provide a subdomain for wordlist generation'') w) (\<lambda>w1 _.
           and_then (print (str ''Usage: python3 naabu.py example.com'') w1) (\<lambda>w2 _.
             (w2, Inr 1)))
         else
           (let subdomain = argv ! 1 in
            and_then (check_naabu_installed env w) (\<lambda>w1 installed.
              if \<not> installed then
                and_then (print (str ''[!] Error: naabu is not installed or not in PATH'') w1) (\<lambda>w2 _.
                and_then (print (str ''Please install naabu first: https://naabu.projectdiscovery.io/naabu/get-started/'') w2) (\<lambda>w3 _.
                  (w3, Inr 1)))
              else
                and_then (activate_venv env w1) (\<lambda>w2 _.
                and_then (print (str ''[*] Starting naabu subdomain wordlist generation for: '' @ subdomain) w2) (\<lambda>w3 _.
                  case map_of module_functions ''run_naabu_wordlist_generation_and_save'' of
                    None \<Rightarrow> (w3, Inl (name_error ''run_naabu_wordlist_generation_and_save''))
                  | Some f \<Rightarrow>
                      (case f env subdomain w3 of
                         (w4, code) \<Rightarrow>
                           and_then
                             (if code = 0
                              then print (str ''[+] wordlist generation completed successfully'') w4
                              else print (str ''[!] wordlist generation completed with errors or warnings'') w4)
                             (\<lambda>w5 _. (w5, Inr code))))))))
      of
        (w', Inl e) \<Rightarrow> (w', Uncaught e)
      | (w', Inr n) \<Rightarrow> (w', SysExit n))"

section \<open>Concrete runs\<close>

text \<open>
  Diagnostic lines of \<open>run_naabu\<close>, an empty world, an environment built from a stub for
  the version query and a stub for the scan, and the stubs the properties are tried on.
\<close>

definition fresh_world :: world where
  "fresh_world = \<lparr>out_log = [], err_log = [], run_calls = [], files = Map.empty, dirs = {}, waited = 0\<rparr>"

definition stub_env :: "child \<Rightarrow> child \<Rightarrow> environment" where
  "stub_env version_child scan_child =
     \<lparr>os_child = (\<lambda>args. if args = version_command then version_child else scan_child),
      timeout_text = str ''timed out'',
      venv_exists = False, venv_is_dir = False, venv_python_exists = False,
      now_strftime = str ''20260101120000123456'',
      makedirs_fault = None, open_fault = None, write_fault = None\<rparr>"

definition executing_line :: "pystr \<Rightarrow> pystr" where
  "executing_line domain = str ''[*] Executing: '' @ py_join (str '' '') (naabu_command domain)"

definition exit_line :: "int \<Rightarrow> pystr" where
  "exit_line n = str ''[!] naabu exited with code '' @ py_str_int n"

text \<open>The world once the \<open>Executing\<close> line is out and the child has exited after \<open>t\<close>.\<close>

definition launched :: "pystr \<Rightarrow> nat \<Rightarrow> world \<Rightarrow> world" where
  "launched domain t w =
     w\<lparr>out_log := out_log w @ [executing_line domain],
       run_calls := run_calls w @ [(naabu_command domain, 300)],
       waited := waited w + t\<rparr>"

text \<open>A target as \<open>sys.argv\<close> holds it for the single byte \<open>0x80\<close>: the code point \<open>U+DC80\<close>.\<close>

definition target_byte_80 :: pystr where
  "target_byte_80 = [56448]"


definition stub_X :: child where
  "stub_X = Exits 1 \<lparr>returncode = 0, stdout = str ''X'', stderr = []\<rparr>"

definition stub_silent_success :: child where
  "stub_silent_success = Exits 1 \<lparr>returncode = 0, stdout = [], stderr = []\<rparr>"

definition stub_killed_partial :: child where
  "stub_killed_partial = Exits 7 \<lparr>returncode = - 9, stdout = str ''partial'', stderr = []\<rparr>"

definition stub_killed_blank :: child where
  "stub_killed_blank = Exits 7 \<lparr>returncode = - 9, stdout = [32, 10], stderr = []\<rparr>"

definition stub_exit2_empty :: child where
  "stub_exit2_empty = Exits 1 \<lparr>returncode = 2, stdout = [], stderr = []\<rparr>"

definition stub_exit2_blank :: child where
  "stub_exit2_blank = Exits 1 \<lparr>returncode = 2, stdout = [32, 10], stderr = []\<rparr>"

definition stub_exit1_tabs :: child where
  "stub_exit1_tabs = Exits 1 \<lparr>returncode = 1, stdout = [9, 10], stderr = str ''boom''\<rparr>"

definition stub_sleeper :: child where
  "stub_sleeper = Exits 1000 \<lparr>returncode = 0, stdout = str ''late'', stderr = []\<rparr>"

definition stub_missing :: child where
  "stub_missing = LaunchFails (FileNotFoundError (str ''[Errno 2] No such file or directory''))"

definition stub_version_ok :: child where
  "stub_version_ok = Exits 1 \<lparr>returncode = 0, stdout = str ''2.3.0'', stderr = []\<rparr>"

definition stub_version_fails :: child where
  "stub_version_fails = Exits 1 \<lparr>returncode = 1, stdout = [], stderr = []\<rparr>"

definition stub_scan_ok :: child where
  "stub_scan_ok = Exits 20 \<lparr>returncode = 0, stdout = str ''example.com:80'' @ [10], stderr = []\<rparr>"

definition cli_argv :: "pystr list" where
  "cli_argv = [str ''naabu.py'', str ''example.com'']"

section \<open>Auxiliary facts\<close>

lemma py_strip_nonempty_iff: "py_strip s \<noteq> [] \<longleftrightarrow> (\<exists>c\<in>set s. \<not> py_isspace c)"
proof -
  let ?d = "dropWhile py_isspace s"
  have "py_strip s = [] \<longleftrightarrow> (\<forall>c\<in>set ?d. py_isspace c)"
    by (simp add: py_strip_def)
  also have "\<dots> \<longleftrightarrow> (\<forall>c\<in>set s. py_isspace c)"
  proof
    assume a: "\<forall>c\<in>set ?d. py_isspace c"
    have "?d = []"
    proof (rule ccontr)
      assume n: "?d \<noteq> []"
      then have "\<not> py_isspace (hd ?d)" by (rule hd_dropWhile)
      moreover from n have "hd ?d \<in> set ?d" by simp
      ultimately show False using a by blast
    qed
    then show "\<forall>c\<in>set s. py_isspace c" by simp
  next
    assume "\<forall>c\<in>set s. py_isspace c"
    then show "\<forall>c\<in>set ?d. py_isspace c" by (blast dest: set_dropWhileD)
  qed
  finally show ?thesis by blast
qed

subsection \<open>Text that standard output encodes\<close>

lemma encodable_small: "(\<And>c. c \<in> set s \<Longrightarrow> c < 256) \<Longrightarrow> utf8_encodable s"
  by (fastforce simp add: utf8_encodable_def is_surrogate_def)

lemma encodable_Nil: "utf8_encodable []"
  by (simp add: utf8_encodable_def)

lemma encodable_Cons: "utf8_encodable (c # s) \<longleftrightarrow> \<not> is_surrogate c \<and> utf8_encodable s"
  by (simp add: utf8_encodable_def)

lemma encodable_append: "utf8_encodable (s @ t) \<longleftrightarrow> utf8_encodable s \<and> utf8_encodable t"
  by (auto simp add: utf8_encodable_def)

lemma str_small: "c \<in> set (str s) \<Longrightarrow> c < 256"
proof -
  assume "c \<in> set (str s)"
  then obtain x where "c = of_char x" by (auto simp add: str_def)
  moreover have "(of_char x :: nat) mod 256 < 256" by simp
  ultimately show ?thesis by (simp only: of_char_mod_256)
qed

lemma encodable_str: "utf8_encodable (str s)"
  by (rule encodable_small) (rule str_small)

lemma py_digits_small: "c \<in> set (py_digits n) \<Longrightarrow> c < 58"
proof (induction n arbitrary: c rule: py_digits.induct)
  case (1 n)
  show ?case
  proof (cases "n < 10")
    case True
    with "1.prems" show ?thesis by (simp add: py_digits.simps [of n])
  next
    case False
    with "1.prems" have "c \<in> set (py_digits (n div 10)) \<or> c = 48 + n mod 10"
      by (auto simp add: py_digits.simps [of n])
    then show ?thesis
    proof
      assume "c \<in> set (py_digits (n div 10))"
      with False show ?thesis by (rule "1.IH")
    next
      assume "c = 48 + n mod 10"
      then show ?thesis by simp
    qed
  qed
qed

lemma encodable_py_digits: "utf8_encodable (py_digits n)"
  by (rule encodable_small) (drule py_digits_small, simp)

lemma encodable_py_str_int: "utf8_encodable (py_str_int i)"
  by (simp add: py_str_int_def encodable_Cons encodable_py_digits is_surrogate_def)

lemma encodable_hex4: "utf8_encodable (hex4 c)"
  by (rule encodable_small) (auto simp add: hex4_def hex_digit_def)

lemma encodable_encode_error_text: "utf8_encodable (encode_error_text s)"
  by (simp add: encode_error_text_def Let_def encodable_append encodable_Cons encodable_Nil
      encodable_str encodable_py_digits encodable_hex4 is_surrogate_def)

lemma encodable_messages:
  "utf8_encodable msg_sigkill" "utf8_encodable msg_timed_out" "utf8_encodable msg_not_found"
  by (simp_all add: msg_sigkill_def msg_timed_out_def msg_not_found_def encodable_str)

lemma encodable_executing_line:
  "utf8_encodable (executing_line domain) \<longleftrightarrow> utf8_encodable domain"
  by (simp add: executing_line_def naabu_command_def encodable_append encodable_str)

lemma encodable_exit_line: "utf8_encodable (exit_line n)"
  by (simp add: exit_line_def encodable_append encodable_str encodable_py_str_int)

subsection \<open>Statements\<close>

lemma print_ok: "utf8_encodable s \<Longrightarrow> print s w = (w\<lparr>out_log := out_log w @ [s]\<rparr>, Inr ())"
  by (simp add: print_def)

lemma print_raises:
  "\<not> utf8_encodable s \<Longrightarrow> print s w = (w, Inl (UnicodeEncodeError (encode_error_text s)))"
  by (simp add: print_def)

lemma print_str: "print (str s) w = (w\<lparr>out_log := out_log w @ [str s]\<rparr>, Inr ())"
  by (simp add: print_ok encodable_str)

lemma and_then_Inr: "and_then (w, Inr x) f = f w x"
  by (simp add: and_then_def)

lemma and_then_Inl: "and_then (w, Inl e) f = (w, Inl e)"
  by (simp add: and_then_def)

lemma try_except_Inr: "try_except (w, Inr x) h = (w, Inr x)"
  by (simp add: try_except_def)

lemma try_except_Inl: "try_except (w, Inl e) h = h w e"
  by (simp add: try_except_def)

lemmas seq_simps = and_then_Inr and_then_Inl try_except_Inr try_except_Inl

text \<open>\<open>run_naabu\<close> branch by branch.\<close>

lemma run_naabu_unprintable:
  assumes "\<not> utf8_encodable domain"
  shows "run_naabu env domain w = (w, Inl (UnicodeEncodeError (encode_error_text (executing_line domain))))"
  using assms
  by (simp add: run_naabu_def Let_def executing_line_def [symmetric]
      print_raises encodable_executing_line seq_simps)


lemma run_naabu_exit_zero:
  assumes "utf8_encodable domain"
    and "os_child env (naabu_command domain) = Exits t r" and "t \<le> 300"
    and "returncode r = 0"
  shows "run_naabu env domain w = (launched domain t w, Inr (Some (stdout r)))"
  using assms
  by (simp add: run_naabu_def Let_def executing_line_def [symmetric] launched_def
      print_ok encodable_executing_line seq_simps subprocess_run_def)

lemma run_naabu_killed:
  assumes "utf8_encodable domain"
    and "os_child env (naabu_command domain) = Exits t r" and "t \<le> 300"
    and "returncode r = - 9"
  shows "run_naabu env domain w =
     ((launched domain t w)\<lparr>out_log := out_log w @ [executing_line domain, msg_sigkill]\<rparr>,
      Inr (if py_strip (stdout r) \<noteq> [] then Some (stdout r) else None))"
  using assms
  by (simp add: run_naabu_def Let_def executing_line_def [symmetric] launched_def
      print_ok encodable_executing_line encodable_messages seq_simps subprocess_run_def)

lemma run_naabu_nonzero:
  assumes "utf8_encodable domain"
    and "os_child env (naabu_command domain) = Exits t r" and "t \<le> 300"
    and "returncode r \<noteq> 0" and "returncode r \<noteq> - 9"
    and "utf8_encodable (stderr r)"
  shows "run_naabu env domain w =
     ((launched domain t w)\<lparr>out_log := out_log w @ [executing_line domain, exit_line (returncode r)]
          @ (if stderr r \<noteq> [] then [str ''naabu error output:'', stderr r] else [])\<rparr>,
      Inr (if py_strip (stdout r) \<noteq> [] then Some (stdout r) else None))"
  using assms
  by (simp add: run_naabu_def Let_def executing_line_def [symmetric] exit_line_def [symmetric]
      launched_def print_ok print_str encodable_executing_line encodable_exit_line seq_simps
      subprocess_run_def)

lemma run_naabu_stderr_unprintable:
  assumes "utf8_encodable domain"
    and "os_child env (naabu_command domain) = Exits t r" and "t \<le> 300"
    and "returncode r \<noteq> 0" and "returncode r \<noteq> - 9"
    and "\<not> utf8_encodable (stderr r)"
  shows "snd (run_naabu env domain w) = Inr None"
proof -
  from assms(6) have "stderr r \<noteq> []" by (auto simp add: encodable_Nil)
  with assms show ?thesis
    by (simp add: run_naabu_def Let_def executing_line_def [symmetric] exit_line_def [symmetric]
        print_ok print_str print_raises encodable_executing_line encodable_exit_line seq_simps
        subprocess_run_def encodable_append encodable_str encodable_encode_error_text)
qed

lemma run_naabu_nonzero_blank:
  assumes "utf8_encodable domain"
    and "os_child env (naabu_command domain) = Exits t r" and "t \<le> 300"
    and "returncode r \<noteq> 0"
    and "py_strip (stdout r) = []"
  shows "snd (run_naabu env domain w) = Inr None"
proof (cases "returncode r = - 9")
  case True
  with assms show ?thesis by (simp add: run_naabu_killed)
next
  case False
  show ?thesis
  proof (cases "utf8_encodable (stderr r)")
    case True
    with assms False show ?thesis by (simp add: run_naabu_nonzero)
  next
    case unprintable: False
    with assms False show ?thesis by (simp add: run_naabu_stderr_unprintable)
  qed
qed

lemma run_naabu_timeout:
  assumes "utf8_encodable domain"
    and "os_child env (naabu_command domain) = Hangs \<or>
         (\<exists>t r. os_child env (naabu_command domain) = Exits t r \<and> 300 < t)"
  shows "run_naabu env domain w =
     (w\<lparr>out_log := out_log w @ [executing_line domain, msg_timed_out],
        run_calls := run_calls w @ [(naabu_command domain, 300)],
        waited := waited w + 300\<rparr>, Inr None)"
  using assms
  by (auto simp add: run_naabu_def Let_def executing_line_def [symmetric]
      print_ok encodable_executing_line encodable_messages seq_simps subprocess_run_def)

lemma run_naabu_launch_fails:
  assumes "utf8_encodable domain"
    and "os_child env (naabu_command domain) = LaunchFails e"
    and "utf8_encodable (exc_str e)"
  shows "snd (run_naabu env domain w) = Inr None"
  using assms
  by (cases e)
     (simp_all add: run_naabu_def Let_def executing_line_def [symmetric]
      print_ok print_str encodable_executing_line encodable_messages seq_simps subprocess_run_def
      encodable_append encodable_str)

lemma run_naabu_not_found:
  assumes "utf8_encodable domain"
    and "os_child env (naabu_command domain) = LaunchFails (FileNotFoundError m)"
  shows "run_naabu env domain w =
     (w\<lparr>out_log := out_log w @ [executing_line domain, msg_not_found],
        run_calls := run_calls w @ [(naabu_command domain, 300)]\<rparr>, Inr None)"
  using assms
  by (simp add: run_naabu_def Let_def executing_line_def [symmetric]
      print_ok encodable_executing_line encodable_messages seq_simps subprocess_run_def)


lemmas unfold_seq = print_def and_then_def try_except_def subprocess_run_def Let_def

lemma run_naabu_files: "files (fst (run_naabu env domain w)) = files w"
  by (simp add: run_naabu_def unfold_seq split: child.splits py_exception.splits)

lemma run_naabu_dirs: "dirs (fst (run_naabu env domain w)) = dirs w"
  by (simp add: run_naabu_def unfold_seq split: child.splits py_exception.splits)

lemma run_naabu_Some_cases:
  assumes "snd (run_naabu env domain w) = Inr (Some s)"
  shows "\<exists>t r. os_child env (naabu_command domain) = Exits t r \<and> t \<le> 300 \<and> s = stdout r \<and>
           (returncode r = 0 \<or> py_strip (stdout r) \<noteq> [])"
  using assms
  by (auto simp add: run_naabu_def unfold_seq
      split: child.splits py_exception.splits if_splits)

lemma version_not_scan: "version_command \<noteq> naabu_command d"
  by (simp add: version_command_def naabu_command_def)

lemma stub_env_scan: "os_child (stub_env v s) (naabu_command d) = s"
  using version_not_scan [of d] by (simp add: stub_env_def)

lemma stub_env_version: "os_child (stub_env v s) version_command = v"
  by (simp add: stub_env_def)

lemma stub_env_faults:
  "makedirs_fault (stub_env v s) = None"
  "open_fault (stub_env v s) = None"
  "write_fault (stub_env v s) = None"
  by (simp_all add: stub_env_def)

lemma check_run_calls:
  "run_calls (fst (check_naabu_installed env w)) = run_calls w @ [(version_command, 5)]"
  by (simp add: check_naabu_installed_def subprocess_run_def Let_def
      split: child.splits py_exception.splits)

lemma check_files: "files (fst (check_naabu_installed env w)) = files w"
  by (simp add: check_naabu_installed_def subprocess_run_def Let_def
      split: child.splits py_exception.splits)

lemma check_dirs: "dirs (fst (check_naabu_installed env w)) = dirs w"
  by (simp add: check_naabu_installed_def subprocess_run_def Let_def
      split: child.splits py_exception.splits)

lemma check_True_iff:
  "snd (check_naabu_installed env w) = Inr True \<longleftrightarrow>
     (\<exists>t r. os_child env version_command = Exits t r \<and> t \<le> 5 \<and> returncode r = 0)"
  by (auto simp add: check_naabu_installed_def subprocess_run_def Let_def
      split: child.splits py_exception.splits)

lemma check_failing_stub:
  "snd (check_naabu_installed (stub_env stub_version_fails s) w) = Inr False"
  by (simp add: check_naabu_installed_def subprocess_run_def stub_env_version
      stub_version_fails_def Let_def)

lemma misspelt_name_unbound:
  "map_of module_functions ''run_naabu_wordlist_generation_and_save'' = None"
  by (simp add: module_functions_def)

lemma main_after_failed_check:
  assumes "snd (check_naabu_installed env w) = Inr False" and "2 \<le> length argv"
  shows "main env argv w =
    ((fst (check_naabu_installed env w))
       \<lparr>out_log := out_log (fst (check_naabu_installed env w)) @
          [str ''[!] Error: naabu is not installed or not in PATH'',
           str ''Please install naabu first: https://naabu.projectdiscovery.io/naabu/get-started/'']\<rparr>,
     SysExit 1)"
  using assms
  by (cases "check_naabu_installed env w") (simp add: main_def print_str seq_simps)

lemma print_frame:
  "run_calls (fst (print s w)) = run_calls w"
  "files (fst (print s w)) = files w"
  "dirs (fst (print s w)) = dirs w"
  by (simp_all add: print_def)

lemma activate_venv_frame:
  "run_calls (fst (activate_venv env w)) = run_calls w"
  "files (fst (activate_venv env w)) = files w"
  "dirs (fst (activate_venv env w)) = dirs w"
  by (simp_all add: activate_venv_def print_str seq_simps)

lemma activate_venv_completes: "\<exists>w'. activate_venv env w = (w', Inr ())"
  by (simp add: activate_venv_def print_str seq_simps)

lemma main_run_calls:
  assumes "2 \<le> length argv"
  shows "run_calls (fst (main env argv w)) = run_calls w @ [(version_command, 5)]"
proof (cases "check_naabu_installed env w")
  case (Pair a b)
  obtain w' where av: "activate_venv env a = (w', Inr ())"
    using activate_venv_completes by blast
  with activate_venv_frame(1) [of env a] have fr: "run_calls w' = run_calls a" by simp
  from Pair check_run_calls [of env w] have "run_calls a = run_calls w @ [(version_command, 5)]"
    by simp
  with assms Pair av fr show ?thesis
    by (cases b)
       (auto simp add: main_def Let_def misspelt_name_unbound print_str seq_simps print_def)
qed

lemma main_files: "files (fst (main env argv w)) = files w"
proof (cases "check_naabu_installed env w")
  case (Pair a b)
  obtain w' where av: "activate_venv env a = (w', Inr ())"
    using activate_venv_completes by blast
  with activate_venv_frame(2) [of env a] have fr: "files w' = files a" by simp
  from Pair check_files [of env w] have "files a = files w" by simp
  with Pair av fr show ?thesis
    by (cases b)
       (auto simp add: main_def Let_def misspelt_name_unbound print_str seq_simps print_def)
qed

lemma main_dirs: "dirs (fst (main env argv w)) = dirs w"
proof (cases "check_naabu_installed env w")
  case (Pair a b)
  obtain w' where av: "activate_venv env a = (w', Inr ())"
    using activate_venv_completes by blast
  with activate_venv_frame(3) [of env a] have fr: "dirs w' = dirs a" by simp
  from Pair check_dirs [of env w] have "dirs a = dirs w" by simp
  with Pair av fr show ?thesis
    by (cases b)
       (auto simp add: main_def Let_def misspelt_name_unbound print_str seq_simps print_def)
qed

lemma main_always_exits_1: "exit_code (snd (main env argv w)) = 1"
proof (cases "check_naabu_installed env w")
  case (Pair a b)
  obtain w' where av: "activate_venv env a = (w', Inr ())"
    using activate_venv_completes by blast
  with Pair show ?thesis
    by (cases b)
       (auto simp add: main_def Let_def misspelt_name_unbound print_str seq_simps print_def)
qed

lemma save_after_none:
  assumes "snd (run_naabu env domain w) = Inr None"
  shows "run_naabu_and_save env domain w =
     ((fst (run_naabu env domain w))
        \<lparr>out_log := out_log (fst (run_naabu env domain w)) @ [str ''[!] naabu failed or returned no output'']\<rparr>,
      1)"
  using assms
  by (cases "run_naabu env domain w") (simp add: run_naabu_and_save_def print_str seq_simps)


lemma run_naabu_launches_iff:
  "run_calls (fst (run_naabu env domain w)) = run_calls w @ [(naabu_command domain, 300)]
     \<longleftrightarrow> utf8_encodable domain"
proof
  assume "utf8_encodable domain"
  then show "run_calls (fst (run_naabu env domain w)) = run_calls w @ [(naabu_command domain, 300)]"
    by (simp add: run_naabu_def executing_line_def [symmetric] encodable_executing_line
        unfold_seq split: child.splits py_exception.splits)
next
  assume l: "run_calls (fst (run_naabu env domain w)) = run_calls w @ [(naabu_command domain, 300)]"
  show "utf8_encodable domain"
  proof (rule ccontr)
    assume "\<not> utf8_encodable domain"
    then have "run_calls (fst (run_naabu env domain w)) = run_calls w"
      by (simp add: run_naabu_unprintable)
    with l show False by simp
  qed
qed

lemma run_naabu_returns:
  assumes "utf8_encodable domain"
    and "\<forall>e. os_child env (naabu_command domain) = LaunchFails e \<longrightarrow> utf8_encodable (exc_str e)"
  shows "\<exists>v. snd (run_naabu env domain w) = Inr v"
proof (cases "os_child env (naabu_command domain)")
  case (Exits t r)
  show ?thesis
  proof (cases "t \<le> 300")
    case late: False
    with Exits have "os_child env (naabu_command domain) = Hangs \<or>
        (\<exists>t r. os_child env (naabu_command domain) = Exits t r \<and> 300 < t)" by simp
    with assms(1) show ?thesis by (simp add: run_naabu_timeout)
  next
    case True
    consider "returncode r = 0" | "returncode r = - 9"
      | "returncode r \<noteq> 0" "returncode r \<noteq> - 9" "utf8_encodable (stderr r)"
      | "returncode r \<noteq> 0" "returncode r \<noteq> - 9" "\<not> utf8_encodable (stderr r)"
      by blast
    then show ?thesis
    proof cases
      case 1
      with assms(1) Exits True show ?thesis by (simp add: run_naabu_exit_zero)
    next
      case 2
      with assms(1) Exits True show ?thesis by (simp add: run_naabu_killed)
    next
      case 3
      with assms(1) Exits True show ?thesis by (simp add: run_naabu_nonzero)
    next
      case 4
      with assms(1) Exits True show ?thesis by (simp add: run_naabu_stderr_unprintable)
    qed
  qed
next
  case Hangs
  with assms(1) show ?thesis by (simp add: run_naabu_timeout)
next
  case (LaunchFails e)
  with assms have "utf8_encodable (exc_str e)" by simp
  with assms(1) LaunchFails show ?thesis by (simp add: run_naabu_launch_fails)
qed

section \<open>The exit code of the command line\<close>

text \<open>
  C1. With one target argument the exit code should be 0 when the run succeeds and 1 on
  any failure. Evaluated on a run where the version query and the scan both exit with
  status 0: \<open>main\<close> calls \<open>run_naabu_wordlist_generation_and_save\<close>, a name the module
  never binds, so the interpreter ends on an uncaught \<open>NameError\<close> with status 1 after the
  version query alone, although \<open>run_naabu_and_save\<close> returns 0 on that same run.
\<close>

theorem main_exit_code_on_successful_scan:
  "snd (main (stub_env stub_version_ok stub_scan_ok) cli_argv fresh_world)
     = Uncaught (name_error ''run_naabu_wordlist_generation_and_save'') \<and>
   exit_code (snd (main (stub_env stub_version_ok stub_scan_ok) cli_argv fresh_world)) = 1 \<and>
   run_calls (fst (main (stub_env stub_version_ok stub_scan_ok) cli_argv fresh_world))
     = [(version_command, 5)] \<and>
   snd (run_naabu_and_save (stub_env stub_version_ok stub_scan_ok) (str ''example.com'') fresh_world) = 0"
proof -
  let ?env = "stub_env stub_version_ok stub_scan_ok"
  have chk: "check_naabu_installed ?env fresh_world
      = (fresh_world\<lparr>run_calls := [(version_command, 5)], waited := 1\<rparr>, Inr True)"
    by (simp add: check_naabu_installed_def subprocess_run_def stub_env_version
        stub_version_ok_def fresh_world_def Let_def)
  have venv: "activate_venv ?env w = (w, Inr ())" for w
    by (simp add: activate_venv_def stub_env_def)
  have len: "\<not> length cli_argv < 2" by (simp add: cli_argv_def)
  have arg: "cli_argv ! Suc 0 = str ''example.com''" by (simp add: cli_argv_def)
  have m: "main ?env cli_argv fresh_world =
      (fresh_world\<lparr>run_calls := [(version_command, 5)], waited := 1,
          out_log := out_log fresh_world @
            [str ''[*] Starting naabu subdomain wordlist generation for: '' @ str ''example.com'']\<rparr>,
       Uncaught (name_error ''run_naabu_wordlist_generation_and_save''))"
    using len
    by (simp add: main_def chk venv arg misspelt_name_unbound Let_def seq_simps print_ok
        encodable_append encodable_str)
  have scan: "run_naabu ?env (str ''example.com'') fresh_world =
      (launched (str ''example.com'') 20 fresh_world, Inr (Some (str ''example.com:80'' @ [10])))"
    using run_naabu_exit_zero [of "str ''example.com''" ?env 20 _ fresh_world]
    by (simp add: stub_env_scan stub_scan_ok_def encodable_str)
  have path: "utf8_encodable (os_path_join output_dir (take 17 (str ''20260101120000123456'') @ str ''-naabu.txt''))"
    by (simp add: os_path_join_def output_dir_def encodable_append encodable_str
        utf8_encodable_def is_surrogate_def str_def)
  have stamp: "now_strftime ?env = str ''20260101120000123456''"
    by (simp add: stub_env_def)
  have len_stamp: "length (str ''20260101120000123456'') - 3 = 17"
    by (simp add: str_def)
  have save: "snd (run_naabu_and_save ?env (str ''example.com'') fresh_world) = 0"
    using path
    by (simp add: run_naabu_and_save_def scan os_makedirs_def write_file_def stub_env_faults
        stamp len_stamp Let_def seq_simps print_ok encodable_append encodable_str)
  from m save show ?thesis by simp
qed

section \<open>What \<open>run_naabu\<close> returns\<close>

text \<open>
  The claims below on what \<open>run_naabu\<close> makes of the child are about a child that was
  launched. The \<open>Executing\<close> line is printed first, outside the \<open>try\<close>, and the child is
  launched exactly when that line could be printed, that is, when standard output encodes
  the target (\<open>run_naabu_launches_iff\<close>).

  C2. For every non-empty target, when the launched child exits with status zero before
  the timeout, \<open>run_naabu\<close> returns its captured standard output as it is, the empty
  string included, and prints nothing beyond the \<open>Executing\<close> line.
\<close>

theorem run_naabu_exit_zero_returns_stdout:
  assumes "domain \<noteq> []"
    and "utf8_encodable domain"
    and "os_child env (naabu_command domain) = Exits t r"
    and "t \<le> 300"
    and "returncode r = 0"
  shows "snd (run_naabu env domain w) = Inr (Some (stdout r)) \<and>
         out_log (fst (run_naabu env domain w)) = out_log w @ [executing_line domain]"
  by (simp add: run_naabu_exit_zero [OF assms(2-5)] launched_def)

text \<open>A stub that exits 0 and prints \<open>X\<close> gives \<open>X\<close>.\<close>

theorem run_naabu_exit_zero_returns_stdout_witness:
  "str ''example.com'' \<noteq> [] \<and>
   utf8_encodable (str ''example.com'') \<and>
   os_child (stub_env stub_version_ok stub_X) (naabu_command (str ''example.com'')) = stub_X \<and>
   stub_X = Exits 1 \<lparr>returncode = 0, stdout = str ''X'', stderr = []\<rparr> \<and>
   snd (run_naabu (stub_env stub_version_ok stub_X) (str ''example.com'') fresh_world)
     = Inr (Some (str ''X''))"
proof -
  have d: "str ''example.com'' \<noteq> []" by (simp add: str_def)
  have p: "utf8_encodable (str ''example.com'')" by (rule encodable_str)
  have c: "os_child (stub_env stub_version_ok stub_X) (naabu_command (str ''example.com''))
      = Exits 1 \<lparr>returncode = 0, stdout = str ''X'', stderr = []\<rparr>"
    by (simp add: stub_env_scan stub_X_def)
  from run_naabu_exit_zero_returns_stdout [OF d p c, of fresh_world] d p c
  show ?thesis by (simp add: stub_X_def)
qed

text \<open>
  C3 as stated fails: a child that exits with status zero and an empty standard output
  makes \<open>run_naabu\<close> return the empty string, which is not \<open>None\<close>.
\<close>

theorem run_naabu_empty_stdout_present_counterexample:
  "os_child (stub_env stub_version_ok stub_silent_success) (naabu_command (str ''example.com''))
     = Exits 1 \<lparr>returncode = 0, stdout = [], stderr = []\<rparr> \<and>
   snd (run_naabu (stub_env stub_version_ok stub_silent_success) (str ''example.com'') fresh_world)
     = Inr (Some [])"
proof -
  have c: "os_child (stub_env stub_version_ok stub_silent_success) (naabu_command (str ''example.com''))
      = Exits 1 \<lparr>returncode = 0, stdout = [], stderr = []\<rparr>"
    by (simp add: stub_env_scan stub_silent_success_def)
  show ?thesis by (simp add: c run_naabu_exit_zero [OF encodable_str c])
qed

text \<open>
  C3, amended. \<open>run_naabu\<close> returns a string only when the child exited before the
  timeout, and then the string is the child's standard output; either the exit status is
  zero (the output may then be empty), or the output is non-empty and holds a character
  that is not whitespace.
\<close>

theorem run_naabu_output_present_only_if:
  assumes "snd (run_naabu env domain w) = Inr (Some s)"
  shows "\<exists>t r. os_child env (naabu_command domain) = Exits t r \<and> t \<le> 300 \<and> s = stdout r \<and>
           (returncode r = 0 \<or> (stdout r \<noteq> [] \<and> (\<exists>c\<in>set (stdout r). \<not> py_isspace c)))"
proof -
  from run_naabu_Some_cases [OF assms] obtain t r where
    h: "os_child env (naabu_command domain) = Exits t r" "t \<le> 300" "s = stdout r"
       "returncode r = 0 \<or> py_strip (stdout r) \<noteq> []" by blast
  from h(4) have "returncode r = 0 \<or> (stdout r \<noteq> [] \<and> (\<exists>c\<in>set (stdout r). \<not> py_isspace c))"
    by (auto simp add: py_strip_nonempty_iff)
  with h show ?thesis by blast
qed

text \<open>A child killed by SIGKILL after printing \<open>partial\<close>: the output is present.\<close>

theorem run_naabu_output_present_only_if_witness:
  "snd (run_naabu (stub_env stub_version_ok stub_killed_partial) (str ''scanme.example'') fresh_world)
     = Inr (Some (str ''partial'')) \<and>
   os_child (stub_env stub_version_ok stub_killed_partial) (naabu_command (str ''scanme.example''))
     = Exits 7 \<lparr>returncode = - 9, stdout = str ''partial'', stderr = []\<rparr> \<and>
   (7::nat) \<le> 300 \<and> str ''partial'' \<noteq> [] \<and> \<not> py_isspace 112"
proof -
  have c: "os_child (stub_env stub_version_ok stub_killed_partial) (naabu_command (str ''scanme.example''))
      = Exits 7 \<lparr>returncode = - 9, stdout = str ''partial'', stderr = []\<rparr>"
    by (simp add: stub_env_scan stub_killed_partial_def)
  have s: "py_strip (str ''partial'') \<noteq> []"
    by (simp add: py_strip_def str_def py_isspace_def)
  have r: "snd (run_naabu (stub_env stub_version_ok stub_killed_partial) (str ''scanme.example'') fresh_world)
     = Inr (Some (str ''partial''))"
    using s by (simp add: run_naabu_killed [OF encodable_str c])
  have p: "\<not> py_isspace 112" by (simp add: py_isspace_def)
  from r run_naabu_output_present_only_if [OF r] c s p show ?thesis
    by (auto simp add: str_def)
qed

text \<open>
  C4 as stated fails: a child killed by SIGKILL whose standard output is a space and a
  newline has a non-empty output, and \<open>run_naabu\<close> returns \<open>None\<close>.
\<close>

theorem run_naabu_sigkill_blank_counterexample:
  "os_child (stub_env stub_version_ok stub_killed_blank) (naabu_command (str ''example.com''))
     = Exits 7 \<lparr>returncode = - 9, stdout = [32, 10], stderr = []\<rparr> \<and>
   [32, 10] \<noteq> ([] :: pystr) \<and>
   snd (run_naabu (stub_env stub_version_ok stub_killed_blank) (str ''example.com'') fresh_world)
     = Inr None"
proof -
  have c: "os_child (stub_env stub_version_ok stub_killed_blank) (naabu_command (str ''example.com''))
      = Exits 7 \<lparr>returncode = - 9, stdout = [32, 10], stderr = []\<rparr>"
    by (simp add: stub_env_scan stub_killed_blank_def)
  have s: "py_strip [32, 10] = []"
    by (simp add: py_strip_def py_isspace_def)
  show ?thesis using s by (simp add: c run_naabu_killed [OF encodable_str c])
qed

text \<open>
  C4, amended. When the launched child is killed by SIGKILL (return code \<open>-9\<close>),
  \<open>run_naabu\<close> prints the SIGKILL warning and returns the captured standard output when it
  holds a character that is not whitespace, and \<open>None\<close> otherwise.
\<close>

theorem run_naabu_sigkill:
  assumes "utf8_encodable domain"
    and "os_child env (naabu_command domain) = Exits t r"
    and "t \<le> 300"
    and "returncode r = - 9"
  shows "snd (run_naabu env domain w)
           = Inr (if \<exists>c\<in>set (stdout r). \<not> py_isspace c then Some (stdout r) else None) \<and>
         out_log (fst (run_naabu env domain w)) = out_log w @ [executing_line domain, msg_sigkill]"
  by (simp add: run_naabu_killed [OF assms] py_strip_nonempty_iff)

text \<open>A stub killed by SIGKILL after printing \<open>partial\<close> gives \<open>partial\<close> and the warning.\<close>

theorem run_naabu_sigkill_witness:
  "utf8_encodable (str ''example.com'') \<and>
   os_child (stub_env stub_version_ok stub_killed_partial) (naabu_command (str ''example.com''))
     = Exits 7 \<lparr>returncode = - 9, stdout = str ''partial'', stderr = []\<rparr> \<and>
   snd (run_naabu (stub_env stub_version_ok stub_killed_partial) (str ''example.com'') fresh_world)
     = Inr (Some (str ''partial'')) \<and>
   out_log (fst (run_naabu (stub_env stub_version_ok stub_killed_partial) (str ''example.com'') fresh_world))
     = [executing_line (str ''example.com''), msg_sigkill]"
proof -
  have p: "utf8_encodable (str ''example.com'')" by (rule encodable_str)
  have c: "os_child (stub_env stub_version_ok stub_killed_partial) (naabu_command (str ''example.com''))
      = Exits 7 \<lparr>returncode = - 9, stdout = str ''partial'', stderr = []\<rparr>"
    by (simp add: stub_env_scan stub_killed_partial_def)
  have s: "\<exists>c\<in>set (str ''partial''). \<not> py_isspace c"
    by (simp add: str_def py_isspace_def)
  from run_naabu_sigkill [OF p c, of fresh_world] s c p
  show ?thesis by (simp add: fresh_world_def)
qed

text \<open>
  C5 as stated fails: a child that exits with status 2 and prints a space and a newline
  has a non-empty output, and \<open>run_naabu\<close> returns \<open>None\<close>.
\<close>

theorem run_naabu_nonzero_blank_counterexample:
  "os_child (stub_env stub_version_ok stub_exit2_blank) (naabu_command (str ''example.com''))
     = Exits 1 \<lparr>returncode = 2, stdout = [32, 10], stderr = []\<rparr> \<and>
   [32, 10] \<noteq> ([] :: pystr) \<and>
   snd (run_naabu (stub_env stub_version_ok stub_exit2_blank) (str ''example.com'') fresh_world)
     = Inr None"
proof -
  have c: "os_child (stub_env stub_version_ok stub_exit2_blank) (naabu_command (str ''example.com''))
      = Exits 1 \<lparr>returncode = 2, stdout = [32, 10], stderr = []\<rparr>"
    by (simp add: stub_env_scan stub_exit2_blank_def)
  have s: "py_strip [32, 10] = []"
    by (simp add: py_strip_def py_isspace_def)
  have "snd (run_naabu (stub_env stub_version_ok stub_exit2_blank) (str ''example.com'') fresh_world)
     = Inr None"
    using s by (simp add: run_naabu_nonzero_blank [OF encodable_str c])
  with c show ?thesis by simp
qed

text \<open>
  C5, amended. When the launched child exits with a return code other than 0 and \<open>-9\<close>,
  and its standard error is text that standard output encodes (as text decoded from the
  child's bytes is), \<open>run_naabu\<close> prints the exit code (and the child's standard error
  when there is some) and returns the captured standard output when it holds a character
  that is not whitespace, and \<open>None\<close> otherwise.
\<close>

theorem run_naabu_nonzero_exit:
  assumes "utf8_encodable domain"
    and "os_child env (naabu_command domain) = Exits t r"
    and "t \<le> 300"
    and "returncode r \<noteq> 0"
    and "returncode r \<noteq> - 9"
    and "utf8_encodable (stderr r)"
  shows "snd (run_naabu env domain w)
           = Inr (if \<exists>c\<in>set (stdout r). \<not> py_isspace c then Some (stdout r) else None) \<and>
         out_log (fst (run_naabu env domain w))
           = out_log w @ [executing_line domain, exit_line (returncode r)]
               @ (if stderr r \<noteq> [] then [str ''naabu error output:'', stderr r] else [])"
  by (simp add: run_naabu_nonzero [OF assms] py_strip_nonempty_iff)

text \<open>A stub that exits 2 with an empty standard output gives \<open>None\<close>.\<close>

theorem run_naabu_nonzero_exit_witness:
  "utf8_encodable (str ''example.com'') \<and> utf8_encodable [] \<and>
   os_child (stub_env stub_version_ok stub_exit2_empty) (naabu_command (str ''example.com''))
     = Exits 1 \<lparr>returncode = 2, stdout = [], stderr = []\<rparr> \<and>
   snd (run_naabu (stub_env stub_version_ok stub_exit2_empty) (str ''example.com'') fresh_world)
     = Inr None \<and>
   out_log (fst (run_naabu (stub_env stub_version_ok stub_exit2_empty) (str ''example.com'') fresh_world))
     = [executing_line (str ''example.com''), str ''[!] naabu exited with code 2'']"
proof -
  have p: "utf8_encodable (str ''example.com'')" by (rule encodable_str)
  have c: "os_child (stub_env stub_version_ok stub_exit2_empty) (naabu_command (str ''example.com''))
      = Exits 1 \<lparr>returncode = 2, stdout = [], stderr = []\<rparr>"
    by (simp add: stub_env_scan stub_exit2_empty_def)
  have e: "exit_line 2 = str ''[!] naabu exited with code 2''"
    by (simp add: exit_line_def py_str_int_def py_digits.simps str_def)
  from run_naabu_nonzero_exit [OF p c, of fresh_world] c e p
  show ?thesis by (simp add: fresh_world_def encodable_Nil)
qed

text \<open>
  C6. When the launched child has not exited after 300 time units (it would exit later,
  or never), \<open>run_naabu\<close> returns \<open>None\<close> after printing the timeout line;
  \<open>subprocess.run\<close> was called once with the timeout 300, and the call waited 300 time
  units, no longer.
\<close>

theorem run_naabu_timeout_returns_none:
  assumes "utf8_encodable domain"
    and "os_child env (naabu_command domain) = Hangs \<or>
         (\<exists>t r. os_child env (naabu_command domain) = Exits t r \<and> 300 < t)"
  shows "snd (run_naabu env domain w) = Inr None \<and>
         out_log (fst (run_naabu env domain w)) = out_log w @ [executing_line domain, msg_timed_out] \<and>
         run_calls (fst (run_naabu env domain w)) = run_calls w @ [(naabu_command domain, 300)] \<and>
         waited (fst (run_naabu env domain w)) = waited w + 300"
  by (simp add: run_naabu_timeout [OF assms])

text \<open>A stub that would exit after 1000 time units.\<close>

theorem run_naabu_timeout_returns_none_witness:
  "utf8_encodable (str ''example.com'') \<and>
   os_child (stub_env stub_version_ok stub_sleeper) (naabu_command (str ''example.com''))
     = Exits 1000 \<lparr>returncode = 0, stdout = str ''late'', stderr = []\<rparr> \<and>
   (300::nat) < 1000 \<and>
   snd (run_naabu (stub_env stub_version_ok stub_sleeper) (str ''example.com'') fresh_world) = Inr None \<and>
   waited (fst (run_naabu (stub_env stub_version_ok stub_sleeper) (str ''example.com'') fresh_world)) = 300"
proof -
  have p: "utf8_encodable (str ''example.com'')" by (rule encodable_str)
  have c: "os_child (stub_env stub_version_ok stub_sleeper) (naabu_command (str ''example.com''))
      = Exits 1000 \<lparr>returncode = 0, stdout = str ''late'', stderr = []\<rparr>"
    by (simp add: stub_env_scan stub_sleeper_def)
  then have h: "os_child (stub_env stub_version_ok stub_sleeper) (naabu_command (str ''example.com'')) = Hangs \<or>
      (\<exists>t r. os_child (stub_env stub_version_ok stub_sleeper) (naabu_command (str ''example.com''))
          = Exits t r \<and> 300 < t)"
    by simp
  from run_naabu_timeout_returns_none [OF p h, of fresh_world] c p
  show ?thesis by (simp add: fresh_world_def)
qed

text \<open>
  C7 as stated fails: the \<open>Executing\<close> line is printed before the \<open>try\<close>, so for a target
  that standard output cannot encode the \<open>UnicodeEncodeError\<close> of that \<open>print\<close> leaves
  \<open>run_naabu\<close>, and no child is launched.
\<close>

theorem run_naabu_unprintable_target_counterexample:
  "snd (run_naabu (stub_env stub_version_ok stub_scan_ok) target_byte_80 fresh_world)
     = Inl (UnicodeEncodeError (encode_error_text (executing_line target_byte_80))) \<and>
   run_calls (fst (run_naabu (stub_env stub_version_ok stub_scan_ok) target_byte_80 fresh_world)) = []"
proof -
  have "\<not> utf8_encodable target_byte_80"
    by (simp add: target_byte_80_def utf8_encodable_def is_surrogate_def)
  then show ?thesis by (simp add: run_naabu_unprintable fresh_world_def)
qed

text \<open>
  C7, amended. When standard output encodes the target, and the description of the error
  should launching fail, no exception leaves \<open>run_naabu\<close>, whatever the child does: it
  returns a value. Any failure to launch gives \<open>None\<close>, and a missing binary is reported
  by the not-found line.
\<close>

theorem run_naabu_raises_nothing_when_printable:
  assumes "utf8_encodable domain"
    and "\<forall>e. os_child env (naabu_command domain) = LaunchFails e \<longrightarrow> utf8_encodable (exc_str e)"
  shows "(\<exists>v. snd (run_naabu env domain w) = Inr v) \<and>
         (\<forall>e. os_child env (naabu_command domain) = LaunchFails e \<longrightarrow>
              snd (run_naabu env domain w) = Inr None) \<and>
         (\<forall>m. os_child env (naabu_command domain) = LaunchFails (FileNotFoundError m) \<longrightarrow>
              out_log (fst (run_naabu env domain w)) = out_log w @ [executing_line domain, msg_not_found])"
proof (intro conjI allI impI)
  show "\<exists>v. snd (run_naabu env domain w) = Inr v"
    using assms by (rule run_naabu_returns)
next
  fix e assume l: "os_child env (naabu_command domain) = LaunchFails e"
  with assms(2) have "utf8_encodable (exc_str e)" by simp
  with assms(1) l show "snd (run_naabu env domain w) = Inr None"
    by (rule run_naabu_launch_fails)
next
  fix m assume "os_child env (naabu_command domain) = LaunchFails (FileNotFoundError m)"
  with assms(1)
  show "out_log (fst (run_naabu env domain w)) = out_log w @ [executing_line domain, msg_not_found]"
    by (simp add: run_naabu_not_found)
qed

text \<open>The binary is missing.\<close>

theorem run_naabu_raises_nothing_when_printable_witness:
  "utf8_encodable (str ''example.com'') \<and>
   os_child (stub_env stub_missing stub_missing) (naabu_command (str ''example.com''))
     = LaunchFails (FileNotFoundError (str ''[Errno 2] No such file or directory'')) \<and>
   utf8_encodable (str ''[Errno 2] No such file or directory'') \<and>
   snd (run_naabu (stub_env stub_missing stub_missing) (str ''example.com'') fresh_world) = Inr None \<and>
   out_log (fst (run_naabu (stub_env stub_missing stub_missing) (str ''example.com'') fresh_world))
     = [executing_line (str ''example.com''), msg_not_found]"
proof -
  have p: "utf8_encodable (str ''example.com'')" by (rule encodable_str)
  have c: "os_child (stub_env stub_missing stub_missing) (naabu_command (str ''example.com''))
      = LaunchFails (FileNotFoundError (str ''[Errno 2] No such file or directory''))"
    by (simp add: stub_env_scan stub_missing_def)
  have q: "\<forall>e. os_child (stub_env stub_missing stub_missing) (naabu_command (str ''example.com''))
      = LaunchFails e \<longrightarrow> utf8_encodable (exc_str e)"
    by (simp add: c encodable_str)
  from run_naabu_raises_nothing_when_printable
    [OF p q, of fresh_world] c p
  show ?thesis by (simp add: fresh_world_def encodable_str)
qed

text \<open>
  C10. When the launched child exits with a non-zero return code (\<open>-9\<close> included) and its
  standard output is non-empty but holds whitespace only, \<open>run_naabu\<close> returns \<open>None\<close>.
\<close>

theorem run_naabu_whitespace_only_is_absent:
  assumes "utf8_encodable domain"
    and "os_child env (naabu_command domain) = Exits t r"
    and "t \<le> 300"
    and "returncode r \<noteq> 0"
    and "stdout r \<noteq> []"
    and "\<forall>c\<in>set (stdout r). py_isspace c"
  shows "snd (run_naabu env domain w) = Inr None"
proof -
  from assms(6) have "py_strip (stdout r) = []"
    using py_strip_nonempty_iff [of "stdout r"] by blast
  with assms(1-4) show ?thesis by (rule run_naabu_nonzero_blank)
qed

text \<open>A stub that exits 1 after printing a tab and a newline.\<close>

theorem run_naabu_whitespace_only_is_absent_witness:
  "utf8_encodable (str ''example.com'') \<and>
   os_child (stub_env stub_version_ok stub_exit1_tabs) (naabu_command (str ''example.com''))
     = Exits 1 \<lparr>returncode = 1, stdout = [9, 10], stderr = str ''boom''\<rparr> \<and>
   [9, 10] \<noteq> ([] :: pystr) \<and> py_isspace 9 \<and> py_isspace 10 \<and>
   snd (run_naabu (stub_env stub_version_ok stub_exit1_tabs) (str ''example.com'') fresh_world) = Inr None"
proof -
  have p: "utf8_encodable (str ''example.com'')" by (rule encodable_str)
  have c: "os_child (stub_env stub_version_ok stub_exit1_tabs) (naabu_command (str ''example.com''))
      = Exits 1 \<lparr>returncode = 1, stdout = [9, 10], stderr = str ''boom''\<rparr>"
    by (simp add: stub_env_scan stub_exit1_tabs_def)
  have s: "\<forall>c\<in>set [9, 10]. py_isspace c" by (simp add: py_isspace_def)
  from run_naabu_whitespace_only_is_absent [OF p c, of fresh_world] s c p
  show ?thesis by simp
qed

section \<open>The dependency check and the files\<close>

text \<open>
  C8. \<open>check_naabu_installed\<close> calls \<open>subprocess.run\<close> once, on the version query with the
  timeout 5, and returns \<open>True\<close> exactly when the query exits within 5 time units with
  return code 0. When it returns \<open>False\<close>, \<open>main\<close> (given a target) ends by \<open>sys.exit(1)\<close>
  and the version query is the only command it has run: the scan is never launched.
\<close>

theorem dependency_check_gates_runner:
  "run_calls (fst (check_naabu_installed env w)) = run_calls w @ [(version_command, 5)] \<and>
   (snd (check_naabu_installed env w) = Inr True \<longleftrightarrow>
      (\<exists>t r. os_child env version_command = Exits t r \<and> t \<le> 5 \<and> returncode r = 0)) \<and>
   (2 \<le> length argv \<and> snd (check_naabu_installed env w) = Inr False \<longrightarrow>
      snd (main env argv w) = SysExit 1 \<and>
      exit_code (snd (main env argv w)) = 1 \<and>
      run_calls (fst (main env argv w)) = run_calls w @ [(version_command, 5)] \<and>
      (\<forall>d t. (naabu_command d, t) \<in> set (run_calls (fst (main env argv w)))
              \<longrightarrow> (naabu_command d, t) \<in> set (run_calls w)))"
proof (intro conjI impI)
  show "run_calls (fst (check_naabu_installed env w)) = run_calls w @ [(version_command, 5)]"
    by (rule check_run_calls)
next
  show "snd (check_naabu_installed env w) = Inr True \<longleftrightarrow>
      (\<exists>t r. os_child env version_command = Exits t r \<and> t \<le> 5 \<and> returncode r = 0)"
    by (rule check_True_iff)
next
  assume h: "2 \<le> length argv \<and> snd (check_naabu_installed env w) = Inr False"
  then have m: "snd (main env argv w) = SysExit 1"
    by (simp add: main_after_failed_check)
  from h have rc: "run_calls (fst (main env argv w)) = run_calls w @ [(version_command, 5)]"
    by (simp add: main_run_calls)
  show "snd (main env argv w) = SysExit 1" by (rule m)
  show "exit_code (snd (main env argv w)) = 1" by (simp add: m)
  show "run_calls (fst (main env argv w)) = run_calls w @ [(version_command, 5)]" by (rule rc)
  show "\<forall>d t. (naabu_command d, t) \<in> set (run_calls (fst (main env argv w)))
              \<longrightarrow> (naabu_command d, t) \<in> set (run_calls w)"
    by (simp add: rc version_not_scan [symmetric])
qed

text \<open>The version query exits with status 1.\<close>

theorem dependency_check_gates_runner_witness:
  "2 \<le> length cli_argv \<and>
   snd (check_naabu_installed (stub_env stub_version_fails stub_scan_ok) fresh_world) = Inr False \<and>
   snd (main (stub_env stub_version_fails stub_scan_ok) cli_argv fresh_world) = SysExit 1 \<and>
   run_calls (fst (main (stub_env stub_version_fails stub_scan_ok) cli_argv fresh_world))
     = [(version_command, 5)]"
proof -
  have l: "2 \<le> length cli_argv" by (simp add: cli_argv_def)
  have c: "snd (check_naabu_installed (stub_env stub_version_fails stub_scan_ok) fresh_world) = Inr False"
    by (rule check_failing_stub)
  from dependency_check_gates_runner
    [of "stub_env stub_version_fails stub_scan_ok" fresh_world cli_argv] l c
  show ?thesis by (simp add: fresh_world_def)
qed

text \<open>
  C9. \<open>run_naabu\<close> changes no file and no directory. When it returns \<open>None\<close>,
  \<open>run_naabu_and_save\<close> returns 1 and changes no file and no directory. When the
  dependency check returns \<open>False\<close>, \<open>main\<close> ends with exit code 1 and has changed no file
  and no directory.
\<close>

theorem runner_leaves_files_to_caller:
  "files (fst (run_naabu env domain w)) = files w \<and>
   dirs (fst (run_naabu env domain w)) = dirs w \<and>
   (snd (run_naabu env domain w) = Inr None \<longrightarrow>
      snd (run_naabu_and_save env domain w) = 1 \<and>
      files (fst (run_naabu_and_save env domain w)) = files w \<and>
      dirs (fst (run_naabu_and_save env domain w)) = dirs w) \<and>
   (2 \<le> length argv \<and> snd (check_naabu_installed env w) = Inr False \<longrightarrow>
      exit_code (snd (main env argv w)) = 1 \<and>
      files (fst (main env argv w)) = files w \<and>
      dirs (fst (main env argv w)) = dirs w)"
proof (intro conjI impI)
  show "files (fst (run_naabu env domain w)) = files w" by (rule run_naabu_files)
  show "dirs (fst (run_naabu env domain w)) = dirs w" by (rule run_naabu_dirs)
next
  assume n: "snd (run_naabu env domain w) = Inr None"
  show "snd (run_naabu_and_save env domain w) = 1"
    by (simp add: save_after_none [OF n])
  show "files (fst (run_naabu_and_save env domain w)) = files w"
    by (simp add: save_after_none [OF n] run_naabu_files)
  show "dirs (fst (run_naabu_and_save env domain w)) = dirs w"
    by (simp add: save_after_none [OF n] run_naabu_dirs)
next
  assume "2 \<le> length argv \<and> snd (check_naabu_installed env w) = Inr False"
  then have m: "snd (main env argv w) = SysExit 1"
    by (simp add: main_after_failed_check)
  show "exit_code (snd (main env argv w)) = 1" by (simp add: m)
  show "files (fst (main env argv w)) = files w" by (rule main_files)
  show "dirs (fst (main env argv w)) = dirs w" by (rule main_dirs)
qed

text \<open>The version query exits with status 1 and the scan would sleep past the timeout.\<close>

theorem runner_leaves_files_to_caller_witness:
  "snd (run_naabu (stub_env stub_version_fails stub_sleeper) (str ''example.com'') fresh_world) = Inr None \<and>
   snd (run_naabu_and_save (stub_env stub_version_fails stub_sleeper) (str ''example.com'') fresh_world) = 1 \<and>
   files (fst (run_naabu_and_save (stub_env stub_version_fails stub_sleeper) (str ''example.com'') fresh_world))
     = Map.empty \<and>
   2 \<le> length cli_argv \<and>
   snd (check_naabu_installed (stub_env stub_version_fails stub_sleeper) fresh_world) = Inr False \<and>
   exit_code (snd (main (stub_env stub_version_fails stub_sleeper) cli_argv fresh_world)) = 1 \<and>
   files (fst (main (stub_env stub_version_fails stub_sleeper) cli_argv fresh_world)) = Map.empty \<and>
   dirs (fst (main (stub_env stub_version_fails stub_sleeper) cli_argv fresh_world)) = {}"
proof -
  let ?env = "stub_env stub_version_fails stub_sleeper"
  have "os_child ?env (naabu_command (str ''example.com'')) = Hangs \<or>
      (\<exists>t r. os_child ?env (naabu_command (str ''example.com'')) = Exits t r \<and> 300 < t)"
    by (simp add: stub_env_scan stub_sleeper_def)
  then have n: "snd (run_naabu ?env (str ''example.com'') fresh_world) = Inr None"
    by (simp add: run_naabu_timeout encodable_str)
  have l: "2 \<le> length cli_argv" by (simp add: cli_argv_def)
  have c: "snd (check_naabu_installed ?env fresh_world) = Inr False"
    by (rule check_failing_stub)
  from runner_leaves_files_to_caller [of ?env "str ''example.com''" fresh_world cli_argv] n l c
  show ?thesis by (simp add: fresh_world_def)
qed

end
